theory Spec2Isabelle
  imports Complex_Main
begin

section \<open>Python values that cross the program's boundaries\<close>

text \<open>
  The script \<^verbatim>\<open>investment_agent.py\<close> has three helper functions with a contract:
  \<^verbatim>\<open>fetch_stock_data\<close>, \<^verbatim>\<open>fetch_news\<close> and \<^verbatim>\<open>generate_report\<close>. They talk to a
  market-data provider (\<^verbatim>\<open>yf.download\<close>), to an HTTP client (\<^verbatim>\<open>requests.get\<close>) and
  to the page (\<^verbatim>\<open>st.error\<close>, \<^verbatim>\<open>st.warning\<close>). Each outside call becomes a
  parameter of the model that either raises or returns; each message put on the page
  and each HTTP request made is returned next to the function's value.
\<close>

text \<open>
  Exceptions, as far as the helpers can meet them. They are all instances of Python's
  class \<^verbatim>\<open>Exception\<close>, which is what \<^verbatim>\<open>except Exception\<close> catches. \<open>Raised\<close> is an
  exception thrown inside a library call (transport, decoding, provider), with the text
  that \<^verbatim>\<open>str(e)\<close> gives for it.
\<close>

datatype py_exception =
    KeyError string
  | TypeError string
  | AttributeError string
  | IndexError string
  | Raised string

text \<open>Python prints a name between single quotes in its messages.\<close>

definition py_quote :: "string \<Rightarrow> string" where
  "py_quote s = CHR 0x27 # s @ [CHR 0x27]"

definition no_attribute :: "string \<Rightarrow> string \<Rightarrow> string" where
  "no_attribute ty attr = py_quote ty @ '' object has no attribute '' @ py_quote attr"

text \<open>\<^verbatim>\<open>f"{e}"\<close>: the text of an exception. A \<^verbatim>\<open>KeyError\<close> prints its key quoted.\<close>

fun str_exception :: "py_exception \<Rightarrow> string" where
  "str_exception (KeyError k) = py_quote k"
| "str_exception (TypeError m) = m"
| "str_exception (AttributeError m) = m"
| "str_exception (IndexError m) = m"
| "str_exception (Raised m) = m"

text \<open>Messages put on the page by \<^verbatim>\<open>st.error\<close> and \<^verbatim>\<open>st.warning\<close>.\<close>

datatype ui_msg = st_error string | st_warning string

subsection \<open>Decimal text of an integer\<close>

text \<open>\<^verbatim>\<open>f"{limit}"\<close> and \<^verbatim>\<open>f"{response.status_code}"\<close> print a Python integer in decimal.\<close>

definition digit_char :: "nat \<Rightarrow> char" where
  "digit_char d = ''0123456789'' ! (d mod 10)"

function str_nat :: "nat \<Rightarrow> string" where
  "str_nat n = (if n < 10 then [digit_char n] else str_nat (n div 10) @ [digit_char (n mod 10)])"
  by pat_completeness auto
termination
  by (relation "measure id") auto

declare str_nat.simps [simp del]

definition str_int :: "int \<Rightarrow> string" where
  "str_int i = (if i < 0 then CHR ''-'' # str_nat (nat (- i)) else str_nat (nat i))"

subsection \<open>JSON values\<close>

text \<open>
  What \<^verbatim>\<open>response.json()\<close> returns: \<^verbatim>\<open>None\<close>, a bool, an int, a float, a string, a list or
  a dict with string keys. A dict is kept as the list of its members in document order;
  when a key is repeated the decoder keeps the last value.
\<close>

datatype json =
    JNull
  | JBool bool
  | JInt int
  | JFloat real
  | JStr string
  | JArr "json list"
  | JObj "(string \<times> json) list"

definition dict_lookup :: "(string \<times> json) list \<Rightarrow> string \<Rightarrow> json option" where
  "dict_lookup kvs k = map_of (rev kvs) k"

text \<open>\<^verbatim>\<open>d.get(key, default)\<close>: only a dict has the method.\<close>

fun py_get :: "json \<Rightarrow> string \<Rightarrow> json \<Rightarrow> py_exception + json" where
  "py_get (JObj kvs) k dflt = (case dict_lookup kvs k of None \<Rightarrow> Inr dflt | Some v \<Rightarrow> Inr v)"
| "py_get JNull k dflt = Inl (AttributeError (no_attribute ''NoneType'' ''get''))"
| "py_get (JBool b) k dflt = Inl (AttributeError (no_attribute ''bool'' ''get''))"
| "py_get (JInt i) k dflt = Inl (AttributeError (no_attribute ''int'' ''get''))"
| "py_get (JFloat x) k dflt = Inl (AttributeError (no_attribute ''float'' ''get''))"
| "py_get (JStr s) k dflt = Inl (AttributeError (no_attribute ''str'' ''get''))"
| "py_get (JArr xs) k dflt = Inl (AttributeError (no_attribute ''list'' ''get''))"

text \<open>\<^verbatim>\<open>v[key]\<close> with a string key: a dict looks the key up, every other value raises.\<close>

fun py_getitem :: "json \<Rightarrow> string \<Rightarrow> py_exception + json" where
  "py_getitem (JObj kvs) k = (case dict_lookup kvs k of None \<Rightarrow> Inl (KeyError k) | Some v \<Rightarrow> Inr v)"
| "py_getitem JNull k = Inl (TypeError (py_quote ''NoneType'' @ '' object is not subscriptable''))"
| "py_getitem (JBool b) k = Inl (TypeError (py_quote ''bool'' @ '' object is not subscriptable''))"
| "py_getitem (JInt i) k = Inl (TypeError (py_quote ''int'' @ '' object is not subscriptable''))"
| "py_getitem (JFloat x) k = Inl (TypeError (py_quote ''float'' @ '' object is not subscriptable''))"
| "py_getitem (JStr s) k = Inl (TypeError ''string indices must be integers'')"
| "py_getitem (JArr xs) k = Inl (TypeError ''list indices must be integers or slices, not str'')"

text \<open>
  \<^verbatim>\<open>for art in v\<close>: a list yields its elements, a string its characters (each a
  one-character string), a dict its keys; nothing else can be iterated.
\<close>

fun py_iter :: "json \<Rightarrow> py_exception + json list" where
  "py_iter (JArr xs) = Inr xs"
| "py_iter (JStr s) = Inr (map (\<lambda>c. JStr [c]) s)"
| "py_iter (JObj kvs) = Inr (map JStr (remdups (map fst kvs)))"
| "py_iter JNull = Inl (TypeError (py_quote ''NoneType'' @ '' object is not iterable''))"
| "py_iter (JBool b) = Inl (TypeError (py_quote ''bool'' @ '' object is not iterable''))"
| "py_iter (JInt i) = Inl (TypeError (py_quote ''int'' @ '' object is not iterable''))"
| "py_iter (JFloat x) = Inl (TypeError (py_quote ''float'' @ '' object is not iterable''))"

text \<open>
  \<^verbatim>\<open>f"{v}"\<close>: a string is printed as it is. The text of any other value is the
  interpreter's (\<open>repr\<close>, a parameter); printing never raises.
\<close>

fun py_format :: "(json \<Rightarrow> string) \<Rightarrow> json \<Rightarrow> string" where
  "py_format repr (JStr s) = s"
| "py_format repr v = repr v"

section \<open>The news fetcher\<close>

text \<open>
  What \<^verbatim>\<open>requests.get\<close> returns: the status code, and what calling
  \<^verbatim>\<open>response.json()\<close> on it does (the decoded body, or the decoder's exception).
\<close>

record response =
  status_code :: int
  json :: "py_exception + json"

type_synonym http_client = "string \<Rightarrow> py_exception + response"

text \<open>
  What a call of \<^verbatim>\<open>fetch_news\<close> does: the URLs it requested, the messages it put
  on the page, and the list it returned.
\<close>

record news_outcome =
  requested :: "string list"
  shown :: "ui_msg list"
  returned :: "string list"

text \<open>
  The credential is \<^verbatim>\<open>None\<close> or a string, as \<^verbatim>\<open>os.getenv\<close> gives it.
  \<^verbatim>\<open>not api_key\<close> is true of \<^verbatim>\<open>None\<close> and of the empty string.
\<close>

fun not_api_key :: "string option \<Rightarrow> bool" where
  "not_api_key None = True"
| "not_api_key (Some k) = (k = [])"

text \<open>
  The URL of the request. The limit is an integer; its default 5 is supplied by the
  caller.
\<close>

definition news_url :: "string \<Rightarrow> string \<Rightarrow> int \<Rightarrow> string" where
  "news_url ticker api_key limit =
     ''https://newsapi.org/v2/everything?'' @
     ''q='' @ ticker @ ''&'' @
     ''sortBy=publishedAt&'' @
     ''language=en&'' @
     ''pageSize='' @ str_int limit @ ''&'' @
     ''apiKey='' @ api_key"

text \<open>
  \<^verbatim>\<open>f"{art['title']} ({art['source']['name']})"\<close>: the title is read first, then the
  source, then its name; the first access that fails raises.
\<close>

definition headline :: "(json \<Rightarrow> string) \<Rightarrow> json \<Rightarrow> py_exception + string" where
  "headline repr art =
     (case py_getitem art ''title'' of
        Inl e \<Rightarrow> Inl e
      | Inr title \<Rightarrow>
          (case py_getitem art ''source'' of
             Inl e \<Rightarrow> Inl e
           | Inr source \<Rightarrow>
               (case py_getitem source ''name'' of
                  Inl e \<Rightarrow> Inl e
                | Inr name \<Rightarrow> Inr (py_format repr title @ '' ('' @ py_format repr name @ '')''))))"

text \<open>The list comprehension: the articles in order, stopping at the first that raises.\<close>

fun news_list_of :: "(json \<Rightarrow> string) \<Rightarrow> json list \<Rightarrow> py_exception + string list" where
  "news_list_of repr [] = Inr []"
| "news_list_of repr (art # arts) =
     (case headline repr art of
        Inl e \<Rightarrow> Inl e
      | Inr h \<Rightarrow>
          (case news_list_of repr arts of
             Inl e \<Rightarrow> Inl e
           | Inr hs \<Rightarrow> Inr (h # hs)))"

text \<open>
  The two lines after the status check:
  \<^verbatim>\<open>articles = response.json().get("articles", [])\<close> and the comprehension over it.
\<close>

definition extract_news :: "(json \<Rightarrow> string) \<Rightarrow> response \<Rightarrow> py_exception + string list" where
  "extract_news repr response =
     (case json response of
        Inl e \<Rightarrow> Inl e
      | Inr body \<Rightarrow>
          (case py_get body ''articles'' (JArr []) of
             Inl e \<Rightarrow> Inl e
           | Inr articles \<Rightarrow>
               (case py_iter articles of
                  Inl e \<Rightarrow> Inl e
                | Inr arts \<Rightarrow> news_list_of repr arts)))"

text \<open>
  The body of the \<^verbatim>\<open>try\<close>: it raises, or it returns the messages shown and the list.
\<close>

definition fetch_news_try ::
  "(json \<Rightarrow> string) \<Rightarrow> http_client \<Rightarrow> string \<Rightarrow> py_exception + (ui_msg list \<times> string list)" where
  "fetch_news_try repr requests_get url =
     (case requests_get url of
        Inl e \<Rightarrow> Inl e
      | Inr response \<Rightarrow>
          if status_code response \<noteq> 200
          then Inr ([st_warning (''NewsAPI returned status '' @ str_int (status_code response))], [])
          else (case extract_news repr response of
                  Inl e \<Rightarrow> Inl e
                | Inr news_list \<Rightarrow> Inr ([], news_list)))"

definition fetch_news ::
  "(json \<Rightarrow> string) \<Rightarrow> http_client \<Rightarrow> string \<Rightarrow> string option \<Rightarrow> int \<Rightarrow> news_outcome" where
  "fetch_news repr requests_get ticker api_key limit =
     (if not_api_key api_key
      then \<lparr>requested = [], shown = [], returned = []\<rparr>
      else
        let url = news_url ticker (the api_key) limit in
        (case fetch_news_try repr requests_get url of
           Inr (msgs, news_list) \<Rightarrow> \<lparr>requested = [url], shown = msgs, returned = news_list\<rparr>
         | Inl e \<Rightarrow>
             \<lparr>requested = [url],
              shown = [st_warning (''Failed to fetch news: '' @ str_exception e)],
              returned = []\<rparr>))"

section \<open>The market-data fetcher\<close>

text \<open>
  The table \<^verbatim>\<open>yf.download\<close> returns: one row per trading day, in the order of the
  table, with the day (its ordinal), the adjusted close and the volume.
\<close>

record bar =
  day :: int
  close :: real
  volume :: int

type_synonym dataframe = "bar list"

text \<open>\<^verbatim>\<open>data.empty\<close>: the table has no row.\<close>

definition df_empty :: "dataframe \<Rightarrow> bool" where
  "df_empty data = (data = [])"

text \<open>
  What a call of \<^verbatim>\<open>fetch_stock_data\<close> does: the messages it put on the page and the
  value it returned (\<^verbatim>\<open>None\<close> or the table).
\<close>

definition fetch_stock_data ::
  "(string \<Rightarrow> py_exception + dataframe) \<Rightarrow> string \<Rightarrow> ui_msg list \<times> dataframe option" where
  "fetch_stock_data yf_download ticker =
     (case yf_download ticker of
        Inr data \<Rightarrow>
          if df_empty data
          then ([st_error ''No stock data found for this ticker.''], None)
          else ([], Some data)
      | Inl e \<Rightarrow> ([st_error (''Error fetching stock data: '' @ str_exception e)], None))"

section \<open>The report builder\<close>

text \<open>
  A Python float is a number or not-a-number. A finite float is modelled by the real
  number it denotes: the report builder only selects and compares closes, which is
  exact. The closes of a table are numbers (the price series of the specification has
  no day with a missing close); pandas answers not-a-number when asked for the maximum
  or minimum of an empty column.
\<close>

datatype pyfloat = Float real | NaN

text \<open>Comparison of floats: every comparison with not-a-number is false.\<close>

fun float_le :: "pyfloat \<Rightarrow> pyfloat \<Rightarrow> bool" where
  "float_le (Float a) (Float b) = (a \<le> b)"
| "float_le _ _ = False"

text \<open>\<^verbatim>\<open>data['Close']\<close>: the column of closes, one scalar per day.\<close>

definition col_Close :: "dataframe \<Rightarrow> real list" where
  "col_Close data = map close data"

text \<open>\<^verbatim>\<open>.iloc[-1]\<close>: the last entry of the column; out of bounds on an empty one.\<close>

fun iloc_last :: "real list \<Rightarrow> py_exception + pyfloat" where
  "iloc_last [] = Inl (IndexError ''single positional indexer is out-of-bounds'')"
| "iloc_last (x # xs) = Inr (Float (last (x # xs)))"

text \<open>\<^verbatim>\<open>.max()\<close> and \<^verbatim>\<open>.min()\<close> of a column.\<close>

fun series_max :: "real list \<Rightarrow> pyfloat" where
  "series_max [] = NaN"
| "series_max (x # xs) = Float (fold max xs x)"

fun series_min :: "real list \<Rightarrow> pyfloat" where
  "series_min [] = NaN"
| "series_min (x # xs) = Float (fold min xs x)"

text \<open>\<^verbatim>\<open>float(v)\<close> of a scalar: the same number as a plain Python float.\<close>

definition py_float :: "pyfloat \<Rightarrow> pyfloat" where
  "py_float v = v"

text \<open>The values of the report dict: a float for a price field, the list for the news.\<close>

datatype report_value = PyFloat pyfloat | PyList "string list"

type_synonym report = "string \<rightharpoonup> report_value"

definition generate_report ::
  "string \<Rightarrow> dataframe option \<Rightarrow> string list \<Rightarrow> py_exception + report" where
  "generate_report ticker data news =
     (let report = Map.empty in
      (case
         (if data \<noteq> None \<and> \<not> df_empty (the data)
          then
            (case iloc_last (col_Close (the data)) of
               Inl e \<Rightarrow> Inl e
             | Inr v \<Rightarrow>
                 Inr (report(''last_close'' \<mapsto> PyFloat (py_float v),
                             ''highest'' \<mapsto> PyFloat (py_float (series_max (col_Close (the data)))),
                             ''lowest'' \<mapsto> PyFloat (py_float (series_min (col_Close (the data)))))))
          else Inr report)
       of
         Inl e \<Rightarrow> Inl e
       | Inr report \<Rightarrow> Inr (report(''news'' \<mapsto> PyList news))))"

section \<open>Notions the specification uses\<close>

text \<open>
  An article's title and the name of its nested source, when it has them. An article
  is well formed when it has both; a malformed one misses its title or its nested
  source name.
\<close>

fun article_title :: "json \<Rightarrow> json option" where
  "article_title (JObj kvs) = dict_lookup kvs ''title''"
| "article_title _ = None"

fun article_source_name :: "json \<Rightarrow> json option" where
  "article_source_name (JObj kvs) =
     (case dict_lookup kvs ''source'' of
        Some (JObj skvs) \<Rightarrow> dict_lookup skvs ''name''
      | _ \<Rightarrow> None)"
| "article_source_name _ = None"

definition well_formed_article :: "json \<Rightarrow> bool" where
  "well_formed_article art = (article_title art \<noteq> None \<and> article_source_name art \<noteq> None)"

text \<open>The headline of a well-formed article, in the pattern \<open>title (source name)\<close>.\<close>

definition headline_text :: "(json \<Rightarrow> string) \<Rightarrow> json \<Rightarrow> string" where
  "headline_text repr art =
     py_format repr (the (article_title art)) @ '' ('' @
     py_format repr (the (article_source_name art)) @ '')''"

text \<open>
  The expected top-level shape of a body: a dict whose \<open>articles\<close> member is a list of
  well-formed articles.
\<close>

fun expected_shape :: "json \<Rightarrow> bool" where
  "expected_shape (JObj kvs) =
     (case dict_lookup kvs ''articles'' of
        Some (JArr arts) \<Rightarrow> list_all well_formed_article arts
      | _ \<Rightarrow> False)"
| "expected_shape _ = False"

text \<open>
  The price series of the specification keeps its days strictly increasing; a record is
  chronologically last when no record of the series has a later day.
\<close>

definition chronological :: "dataframe \<Rightarrow> bool" where
  "chronological data = sorted_wrt (<) (map day data)"

definition chronologically_last :: "dataframe \<Rightarrow> bar \<Rightarrow> bool" where
  "chronologically_last data b = (b \<in> set data \<and> list_all (\<lambda>b'. day b' \<le> day b) data)"

text \<open>
  The price fields of a report are either all absent or all present; when present they
  are floats with \<open>lowest \<le> last_close \<le> highest\<close> and \<open>lowest \<le> highest\<close>.
\<close>

definition price_fields_ok :: "report \<Rightarrow> bool" where
  "price_fields_ok report =
     (case (report ''last_close'', report ''highest'', report ''lowest'') of
        (None, None, None) \<Rightarrow> True
      | (Some (PyFloat lc), Some (PyFloat hi), Some (PyFloat lo)) \<Rightarrow>
          float_le lo hi \<and> float_le lo lc \<and> float_le lc hi
      | _ \<Rightarrow> False)"

text \<open>
  The outcome the specification calls news unavailable: one request made, one warning
  with the cause, nothing returned.
\<close>

definition news_unavailable :: "string \<Rightarrow> py_exception \<Rightarrow> news_outcome" where
  "news_unavailable url e =
     \<lparr>requested = [url],
      shown = [st_warning (''Failed to fetch news: '' @ str_exception e)],
      returned = []\<rparr>"

section \<open>Sample inputs\<close>

text \<open>Three trading days with closes 150, 200 and 180.\<close>

definition aapl :: dataframe where
  "aapl = [\<lparr>day = 1, close = 150, volume = 1000\<rparr>,
           \<lparr>day = 2, close = 200, volume = 1200\<rparr>,
           \<lparr>day = 3, close = 180, volume = 900\<rparr>]"

text \<open>An article as the news provider sends it, and a body holding a list of them.\<close>

definition article :: "string \<Rightarrow> string \<Rightarrow> json" where
  "article title name =
     JObj [(''source'', JObj [(''id'', JNull), (''name'', JStr name)]),
           (''title'', JStr title),
           (''url'', JStr ''https://example.com/a'')]"

definition articles_body :: "json list \<Rightarrow> json" where
  "articles_body arts =
     JObj [(''status'', JStr ''ok''),
           (''totalResults'', JInt (int (length arts))),
           (''articles'', JArr arts)]"

text \<open>A client that answers every request with the same status and body.\<close>

definition answering :: "int \<Rightarrow> py_exception + json \<Rightarrow> http_client" where
  "answering status body = (\<lambda>url. Inr \<lparr>status_code = status, json = body\<rparr>)"

definition aapl_url :: string where
  "aapl_url = ''https://newsapi.org/v2/everything?q=AAPL&sortBy=publishedAt&language=en&pageSize=5&apiKey=k''"

section \<open>Properties of the report builder\<close>

lemma fold_max: "fold max xs (x::real) = Max (set (x # xs))"
  using Max.set_eq_fold [of x xs] by simp

lemma fold_min: "fold min xs (x::real) = Min (set (x # xs))"
  using Min.set_eq_fold [of x xs] by simp

lemma series_max_Max: "data \<noteq> [] \<Longrightarrow> series_max (col_Close data) = Float (Max (close ` set data))"
proof (cases data)
  case Nil then show "data \<noteq> [] \<Longrightarrow> ?thesis" by simp
next
  case (Cons b bs)
  have "set (close b # map close bs) = close ` set data" using Cons by simp
  then show ?thesis using Cons fold_max [of "map close bs" "close b"] by (simp add: col_Close_def)
qed

lemma series_min_Min: "data \<noteq> [] \<Longrightarrow> series_min (col_Close data) = Float (Min (close ` set data))"
proof (cases data)
  case Nil then show "data \<noteq> [] \<Longrightarrow> ?thesis" by simp
next
  case (Cons b bs)
  have "set (close b # map close bs) = close ` set data" using Cons by simp
  then show ?thesis using Cons fold_min [of "map close bs" "close b"] by (simp add: col_Close_def)
qed

lemma iloc_last_close: "data \<noteq> [] \<Longrightarrow> iloc_last (col_Close data) = Inr (Float (close (last data)))"
  by (cases data) (simp_all add: col_Close_def last_map)

lemma generate_report_nonempty:
  "data \<noteq> [] \<Longrightarrow> generate_report ticker (Some data) news =
     Inr [''last_close'' \<mapsto> PyFloat (Float (close (last data))),
          ''highest'' \<mapsto> PyFloat (Float (Max (close ` set data))),
          ''lowest'' \<mapsto> PyFloat (Float (Min (close ` set data))),
          ''news'' \<mapsto> PyList news]"
  by (simp add: generate_report_def df_empty_def iloc_last_close series_max_Max series_min_Min py_float_def)

lemma generate_report_absent:
  "data = None \<or> data = Some [] \<Longrightarrow> generate_report ticker data news = Inr [''news'' \<mapsto> PyList news]"
  by (auto simp add: generate_report_def df_empty_def)

lemma sorted_days_last:
  "sorted_wrt (<) (map day data) \<Longrightarrow> b \<in> set data \<Longrightarrow> day b \<le> day (last data)"
proof (induction data)
  case Nil
  then show ?case by simp
next
  case (Cons a data)
  then show ?case by (cases "data = []") (auto intro: less_imp_le order_trans)
qed

lemma last_is_chronologically_last:
  assumes "data \<noteq> []" "chronological data"
  shows "chronologically_last data (last data)"
  using assms sorted_days_last [of data]
  by (auto simp add: chronologically_last_def chronological_def list_all_iff)

lemma sorted_days_butlast:
  "sorted_wrt (<) (map day data) \<Longrightarrow> b \<in> set (butlast data) \<Longrightarrow> day b < day (last data)"
proof (induction data)
  case Nil
  then show ?case by simp
next
  case (Cons a data)
  show ?case
  proof (cases "data = []")
    case True
    with Cons.prems show ?thesis by simp
  next
    case False
    with Cons show ?thesis by auto
  qed
qed

lemma chronologically_last_unique:
  assumes "chronological data" "chronologically_last data b"
  shows "b = last data"
proof (rule ccontr)
  assume neq: "b \<noteq> last data"
  from assms(2) have mem: "b \<in> set data" and top: "\<forall>b' \<in> set data. day b' \<le> day b"
    by (simp_all add: chronologically_last_def list_all_iff)
  from mem have ne: "data \<noteq> []" by auto
  then have "data = butlast data @ [last data]" by simp
  then have "set data = set (butlast data) \<union> {last data}"
    by (metis list.set(1) list.simps(15) set_append)
  with mem neq have "b \<in> set (butlast data)" by auto
  with assms(1) have "day b < day (last data)"
    by (simp add: chronological_def sorted_days_butlast)
  moreover from ne top have "day (last data) \<le> day b" by simp
  ultimately show False by simp
qed

lemma float_le_Max_Min:
  assumes "data \<noteq> []"
  shows "float_le (Float (Min (close ` set data))) (Float (Max (close ` set data)))"
    and "float_le (Float (Min (close ` set data))) (Float (close (last data)))"
    and "float_le (Float (close (last data))) (Float (Max (close ` set data)))"
proof -
  from assms have fin: "finite (close ` set data)" and mem: "close (last data) \<in> close ` set data"
    by simp_all
  from fin mem show "float_le (Float (Min (close ` set data))) (Float (close (last data)))"
    by simp
  from fin mem show "float_le (Float (close (last data))) (Float (Max (close ` set data)))"
    by simp
  from fin mem have "Min (close ` set data) \<le> close (last data)" "close (last data) \<le> Max (close ` set data)"
    by simp_all
  then show "float_le (Float (Min (close ` set data))) (Float (Max (close ` set data)))"
    by simp
qed

text \<open>
  Claim C1. For every ticker, every non-empty price series (days strictly increasing)
  and every news list, \<open>generate_report\<close> returns a report whose \<open>last_close\<close> is the
  close of the chronologically last record, whose \<open>highest\<close> is the maximum close of
  the whole series and whose \<open>lowest\<close> is its minimum close; each is a plain float
  holding a number (\<open>PyFloat (Float x)\<close>), not a list and not not-a-number.
\<close>

theorem generate_report_price_fields:
  assumes "data \<noteq> []" and "chronological data"
  shows "\<exists>report. generate_report ticker (Some data) news = Inr report
    \<and> chronologically_last data (last data)
    \<and> (\<forall>b. chronologically_last data b \<longrightarrow>
          report ''last_close'' = Some (PyFloat (Float (close b))))
    \<and> report ''highest'' = Some (PyFloat (Float (Max (close ` set data))))
    \<and> report ''lowest'' = Some (PyFloat (Float (Min (close ` set data))))"
proof -
  let ?report = "[''last_close'' \<mapsto> PyFloat (Float (close (last data))),
          ''highest'' \<mapsto> PyFloat (Float (Max (close ` set data))),
          ''lowest'' \<mapsto> PyFloat (Float (Min (close ` set data))),
          ''news'' \<mapsto> PyList news]"
  have run: "generate_report ticker (Some data) news = Inr ?report"
    using assms(1) by (rule generate_report_nonempty)
  have lc: "\<forall>b. chronologically_last data b \<longrightarrow>
      ?report ''last_close'' = Some (PyFloat (Float (close b)))"
    using chronologically_last_unique [OF assms(2)] by auto
  have hi: "?report ''highest'' = Some (PyFloat (Float (Max (close ` set data))))" by simp
  have lo: "?report ''lowest'' = Some (PyFloat (Float (Min (close ` set data))))" by simp
  from run lc hi lo last_is_chronologically_last [OF assms] show ?thesis by blast
qed

text \<open>
  The first scenario of the specification on three days: closes 150, 200, 180 give
  \<open>last_close = 180\<close>, \<open>highest = 200\<close>, \<open>lowest = 150\<close>.
\<close>

theorem generate_report_price_fields_witness:
  "aapl \<noteq> [] \<and> chronological aapl \<and> (\<exists>report. generate_report ''AAPL'' (Some aapl) [] = Inr report
    \<and> report ''last_close'' = Some (PyFloat (Float 180))
    \<and> report ''highest'' = Some (PyFloat (Float 200))
    \<and> report ''lowest'' = Some (PyFloat (Float 150)))"
proof -
  have ne: "aapl \<noteq> []" by (simp add: aapl_def)
  have chr: "chronological aapl" by (simp add: aapl_def chronological_def)
  have l: "chronologically_last aapl \<lparr>day = 3, close = 180, volume = 900\<rparr>"
    by (simp add: aapl_def chronologically_last_def)
  have mx: "Max (close ` set aapl) = 200" by (simp add: aapl_def)
  have mn: "Min (close ` set aapl) = 150" by (simp add: aapl_def)
  from generate_report_price_fields [OF ne chr, of "''AAPL''" "[]"] l mx mn
  have "\<exists>report. generate_report ''AAPL'' (Some aapl) [] = Inr report
    \<and> report ''last_close'' = Some (PyFloat (Float 180))
    \<and> report ''highest'' = Some (PyFloat (Float 200))
    \<and> report ''lowest'' = Some (PyFloat (Float 150))"
    by fastforce
  with ne chr show ?thesis by simp
qed

text \<open>
  Claim C2. For every ticker, every series (absent, empty or non-empty) and every news
  list, \<open>generate_report\<close> does not raise: it returns a report. In that report the three
  price fields are all absent or all present, and when present
  \<open>lowest \<le> highest\<close> and \<open>lowest \<le> last_close \<le> highest\<close>.
\<close>

theorem generate_report_never_raises:
  "\<exists>report. generate_report ticker data news = Inr report \<and> price_fields_ok report"
proof (cases "data = None \<or> data = Some []")
  case True
  then have "generate_report ticker data news = Inr [''news'' \<mapsto> PyList news]"
    by (rule generate_report_absent)
  moreover have "price_fields_ok [''news'' \<mapsto> PyList news]"
    by (simp add: price_fields_ok_def)
  ultimately show ?thesis by blast
next
  case False
  then obtain df where df: "data = Some df" "df \<noteq> []" by auto
  let ?report = "[''last_close'' \<mapsto> PyFloat (Float (close (last df))),
          ''highest'' \<mapsto> PyFloat (Float (Max (close ` set df))),
          ''lowest'' \<mapsto> PyFloat (Float (Min (close ` set df))),
          ''news'' \<mapsto> PyList news]"
  have "generate_report ticker data news = Inr ?report"
    using df generate_report_nonempty by simp
  moreover have "price_fields_ok ?report"
    using float_le_Max_Min [OF df(2)] by (simp add: price_fields_ok_def)
  ultimately show ?thesis by blast
qed

text \<open>A non-empty series, an absent one and an empty one.\<close>

theorem generate_report_never_raises_witness:
  "(\<exists>report. generate_report ''AAPL'' (Some aapl) [''T1 (S1)''] = Inr report \<and> price_fields_ok report
      \<and> report ''highest'' = Some (PyFloat (Float 200)))
   \<and> (\<exists>report. generate_report ''ZZZZINVALID'' None [] = Inr report \<and> price_fields_ok report
      \<and> report ''highest'' = None)
   \<and> (\<exists>report. generate_report ''ZZZZINVALID'' (Some []) [] = Inr report \<and> price_fields_ok report
      \<and> report ''highest'' = None)"
proof -
  have a: "generate_report ''AAPL'' (Some aapl) [''T1 (S1)''] = Inr report \<Longrightarrow>
      report ''highest'' = Some (PyFloat (Float 200))" for report
    by (auto simp add: generate_report_def aapl_def df_empty_def col_Close_def py_float_def)
  have b: "generate_report ''ZZZZINVALID'' None [] = Inr report \<Longrightarrow> report ''highest'' = None" for report
    by (auto simp add: generate_report_def)
  have c: "generate_report ''ZZZZINVALID'' (Some []) [] = Inr report \<Longrightarrow> report ''highest'' = None" for report
    by (auto simp add: generate_report_def df_empty_def)
  from generate_report_never_raises [of "''AAPL''" "Some aapl" "[''T1 (S1)'']"]
    generate_report_never_raises [of "''ZZZZINVALID''" None "[]"]
    generate_report_never_raises [of "''ZZZZINVALID''" "Some []" "[]"] a b c
  show ?thesis by blast
qed

section \<open>Properties of the market-data fetcher\<close>

text \<open>
  Claim C3. \<open>fetch_stock_data\<close> always returns a value, never an exception. When the
  provider answers with zero rows it returns no series and shows the message that no
  data was found; when the provider raises, it returns no series and shows an error
  message that carries the text of the cause.
\<close>

theorem fetch_stock_data_no_series:
  "(yf_download ticker = Inr [] \<longrightarrow>
      fetch_stock_data yf_download ticker =
        ([st_error ''No stock data found for this ticker.''], None))
   \<and> (yf_download ticker = Inl e \<longrightarrow>
      fetch_stock_data yf_download ticker =
        ([st_error (''Error fetching stock data: '' @ str_exception e)], None))"
  by (simp add: fetch_stock_data_def df_empty_def)

text \<open>An unknown ticker with zero rows, and a provider whose connection is reset.\<close>

theorem fetch_stock_data_no_series_witness:
  "fetch_stock_data (\<lambda>t. Inr []) ''ZZZZINVALID'' =
     ([st_error ''No stock data found for this ticker.''], None)
   \<and> fetch_stock_data (\<lambda>t. Inl (Raised ''connection reset'')) ''AAPL'' =
     ([st_error ''Error fetching stock data: connection reset''], None)"
  using fetch_stock_data_no_series [of "\<lambda>t. Inr []" "''ZZZZINVALID''"]
    fetch_stock_data_no_series [of "\<lambda>t. Inl (Raised ''connection reset'')" "''AAPL''" "Raised ''connection reset''"]
  by simp

section \<open>Properties of the news fetcher\<close>

lemma news_url_aapl: "news_url ''AAPL'' ''k'' 5 = aapl_url"
  by (simp add: news_url_def aapl_url_def str_int_def str_nat.simps digit_char_def)

lemma headline_well_formed:
  "well_formed_article art \<Longrightarrow> headline repr art = Inr (headline_text repr art)"
  by (cases art)
    (auto simp add: well_formed_article_def headline_def headline_text_def
      split: option.splits json.splits)

lemma headline_malformed:
  "\<not> well_formed_article art \<Longrightarrow> \<exists>e. headline repr art = Inl e"
  by (cases art)
    (auto simp add: well_formed_article_def headline_def
      split: option.splits json.splits sum.splits)

lemma news_list_of_Inr:
  "news_list_of repr arts = Inr hs \<Longrightarrow>
     list_all well_formed_article arts \<and> hs = map (headline_text repr) arts"
proof (induction arts arbitrary: hs)
  case Nil
  then show ?case by simp
next
  case (Cons art arts)
  show ?case
  proof (cases "well_formed_article art")
    case True
    with Cons show ?thesis
      by (auto simp add: headline_well_formed split: sum.splits)
  next
    case False
    then obtain e where "headline repr art = Inl e" using headline_malformed by blast
    with Cons.prems show ?thesis by simp
  qed
qed

lemma news_list_of_well_formed:
  "list_all well_formed_article arts \<Longrightarrow>
     news_list_of repr arts = Inr (map (headline_text repr) arts)"
  by (induction arts) (simp_all add: headline_well_formed)

lemma news_list_of_malformed:
  "\<not> list_all well_formed_article arts \<Longrightarrow> \<exists>e. news_list_of repr arts = Inl e"
  using news_list_of_Inr [of repr arts] by (cases "news_list_of repr arts") auto

lemma fetch_news_with_key:
  "key \<noteq> [] \<Longrightarrow> fetch_news repr requests_get ticker (Some key) limit =
     (case fetch_news_try repr requests_get (news_url ticker key limit) of
        Inr (msgs, news_list) \<Rightarrow>
          \<lparr>requested = [news_url ticker key limit], shown = msgs, returned = news_list\<rparr>
      | Inl e \<Rightarrow> news_unavailable (news_url ticker key limit) e)"
  by (simp add: fetch_news_def news_unavailable_def Let_def split: sum.splits)

lemma extract_news_articles:
  "json r = Inr (JObj kvs) \<Longrightarrow> dict_lookup kvs ''articles'' = Some (JArr arts) \<Longrightarrow>
     extract_news repr r = news_list_of repr arts"
  by (simp add: extract_news_def)

lemma not_well_formed_JStr: "\<not> well_formed_article (JStr s)"
  by (simp add: well_formed_article_def)

lemma news_list_of_strings:
  "news_list_of repr (map JStr ks) = Inr hs \<Longrightarrow> hs = []"
  by (cases ks) (auto simp add: headline_def split: sum.splits)

lemma extract_news_nonempty:
  assumes "extract_news repr r = Inr hs" and "hs \<noteq> []"
  shows "\<exists>kvs arts. json r = Inr (JObj kvs) \<and> dict_lookup kvs ''articles'' = Some (JArr arts)
           \<and> list_all well_formed_article arts \<and> hs = map (headline_text repr) arts"
proof -
  from assms(1) obtain body where body: "json r = Inr body"
    by (cases "json r") (simp_all add: extract_news_def)
  from assms(1) body obtain articles where
    articles: "py_get body ''articles'' (JArr []) = Inr articles"
    by (cases "py_get body ''articles'' (JArr [])") (simp_all add: extract_news_def)
  from assms(1) body articles obtain xs where
    xs: "py_iter articles = Inr xs" and run: "news_list_of repr xs = Inr hs"
    by (cases "py_iter articles") (simp_all add: extract_news_def)
  from articles obtain kvs where kvs: "body = JObj kvs"
    by (cases body) simp_all
  have "\<exists>arts. articles = JArr arts"
  proof (cases articles)
    case (JStr s)
    with xs have "xs = map JStr (map (\<lambda>c. [c]) s)" by (auto simp add: comp_def)
    with run assms(2) show ?thesis using news_list_of_strings by blast
  next
    case (JObj ms)
    with xs have "xs = map JStr (remdups (map fst ms))" by simp
    with run assms(2) show ?thesis using news_list_of_strings by blast
  qed (use xs in simp_all)
  then obtain arts where arts: "articles = JArr arts" ..
  with xs have "xs = arts" by simp
  with run have wf: "list_all well_formed_article arts" and hs: "hs = map (headline_text repr) arts"
    using news_list_of_Inr by blast+
  have "dict_lookup kvs ''articles'' = Some (JArr arts)"
  proof (cases "dict_lookup kvs ''articles''")
    case None
    with articles kvs arts have "arts = []" by simp
    with hs assms(2) show ?thesis by simp
  next
    case (Some v)
    with articles kvs arts show ?thesis by simp
  qed
  with body kvs wf hs show ?thesis by blast
qed

lemma fetch_news_nonempty:
  assumes "returned (fetch_news repr requests_get ticker api_key limit) \<noteq> []"
  shows "\<exists>key r kvs arts. api_key = Some key \<and> key \<noteq> []
           \<and> requests_get (news_url ticker key limit) = Inr r \<and> status_code r = 200
           \<and> json r = Inr (JObj kvs) \<and> dict_lookup kvs ''articles'' = Some (JArr arts)
           \<and> list_all well_formed_article arts
           \<and> fetch_news repr requests_get ticker api_key limit =
               \<lparr>requested = [news_url ticker key limit], shown = [],
                returned = map (headline_text repr) arts\<rparr>"
proof -
  from assms obtain key where key: "api_key = Some key" "key \<noteq> []"
    by (cases api_key) (auto simp add: fetch_news_def split: if_splits)
  let ?url = "news_url ticker key limit"
  from assms key obtain msgs hs where
    run: "fetch_news_try repr requests_get ?url = Inr (msgs, hs)" and hs: "hs \<noteq> []"
    by (cases "fetch_news_try repr requests_get ?url")
      (auto simp add: fetch_news_with_key news_unavailable_def)
  from run obtain r where r: "requests_get ?url = Inr r"
    by (cases "requests_get ?url") (simp_all add: fetch_news_try_def)
  from run r hs have st: "status_code r = 200"
    by (auto simp add: fetch_news_try_def split: if_splits)
  from run r st have ex: "extract_news repr r = Inr hs" and msgs: "msgs = []"
    by (auto simp add: fetch_news_try_def split: sum.splits)
  from extract_news_nonempty [OF ex hs] obtain kvs arts where
    "json r = Inr (JObj kvs)" "dict_lookup kvs ''articles'' = Some (JArr arts)"
    "list_all well_formed_article arts" "hs = map (headline_text repr) arts"
    by blast
  moreover from key run msgs have "fetch_news repr requests_get ticker api_key limit =
      \<lparr>requested = [?url], shown = [], returned = hs\<rparr>"
    by (simp add: fetch_news_with_key)
  ultimately show ?thesis using key r st by blast
qed

lemma well_formed_article_sample: "well_formed_article (article title name)"
  by (simp add: well_formed_article_def article_def dict_lookup_def)

lemma headline_text_sample: "headline_text repr (article title name) = title @ '' ('' @ name @ '')''"
  by (simp add: headline_text_def article_def dict_lookup_def)

lemma articles_body_lookup:
  "dict_lookup [(''status'', JStr ''ok''), (''totalResults'', JInt (int (length arts))),
     (''articles'', JArr arts)] ''articles'' = Some (JArr arts)"
  by (simp add: dict_lookup_def)

lemma extract_news_sample:
  "extract_news repr \<lparr>status_code = s, json = Inr (articles_body arts)\<rparr> = news_list_of repr arts"
  by (simp add: extract_news_def articles_body_def dict_lookup_def)

text \<open>
  Claim C4. With a credential present, every exception raised by the request or while
  the response is decoded and its articles are read is caught by \<open>fetch_news\<close> and
  becomes the empty list with one warning naming the cause: a network failure, a JSON
  decode failure, any exception of the extraction, and in particular a list of articles
  with a single malformed one (title or nested source name missing), which yields the
  empty list and never the headlines of the well-formed articles before it.
\<close>

theorem fetch_news_catches:
  assumes "key \<noteq> []"
  shows "(requests_get (news_url ticker key limit) = Inl e \<longrightarrow>
            fetch_news repr requests_get ticker (Some key) limit =
              news_unavailable (news_url ticker key limit) e)
    \<and> (requests_get (news_url ticker key limit) = Inr r \<and> status_code r = 200 \<and> json r = Inl e \<longrightarrow>
            fetch_news repr requests_get ticker (Some key) limit =
              news_unavailable (news_url ticker key limit) e)
    \<and> (requests_get (news_url ticker key limit) = Inr r \<and> status_code r = 200 \<and>
         extract_news repr r = Inl e \<longrightarrow>
            fetch_news repr requests_get ticker (Some key) limit =
              news_unavailable (news_url ticker key limit) e)
    \<and> (requests_get (news_url ticker key limit) = Inr r \<and> status_code r = 200 \<and>
         json r = Inr (JObj kvs) \<and> dict_lookup kvs ''articles'' = Some (JArr arts) \<and>
         \<not> list_all well_formed_article arts \<longrightarrow>
            (\<exists>e'. fetch_news repr requests_get ticker (Some key) limit =
              news_unavailable (news_url ticker key limit) e'))"
proof (intro conjI impI)
  assume "requests_get (news_url ticker key limit) = Inl e"
  then show "fetch_news repr requests_get ticker (Some key) limit =
      news_unavailable (news_url ticker key limit) e"
    using assms by (simp add: fetch_news_with_key fetch_news_try_def)
next
  assume "requests_get (news_url ticker key limit) = Inr r \<and> status_code r = 200 \<and> json r = Inl e"
  then show "fetch_news repr requests_get ticker (Some key) limit =
      news_unavailable (news_url ticker key limit) e"
    using assms by (simp add: fetch_news_with_key fetch_news_try_def extract_news_def)
next
  assume "requests_get (news_url ticker key limit) = Inr r \<and> status_code r = 200 \<and>
    extract_news repr r = Inl e"
  then show "fetch_news repr requests_get ticker (Some key) limit =
      news_unavailable (news_url ticker key limit) e"
    using assms by (simp add: fetch_news_with_key fetch_news_try_def)
next
  assume a: "requests_get (news_url ticker key limit) = Inr r \<and> status_code r = 200 \<and>
    json r = Inr (JObj kvs) \<and> dict_lookup kvs ''articles'' = Some (JArr arts) \<and>
    \<not> list_all well_formed_article arts"
  then obtain e' where "news_list_of repr arts = Inl e'"
    using news_list_of_malformed by blast
  with a have "extract_news repr r = Inl e'"
    by (simp add: extract_news_articles)
  with a have "fetch_news repr requests_get ticker (Some key) limit =
      news_unavailable (news_url ticker key limit) e'"
    using assms by (simp add: fetch_news_with_key fetch_news_try_def)
  then show "\<exists>e'. fetch_news repr requests_get ticker (Some key) limit =
      news_unavailable (news_url ticker key limit) e'" ..
qed

text \<open>
  A timeout, a body that is not JSON, an article without its source after a well-formed
  one, and an article that is a bare string.
\<close>

theorem fetch_news_catches_witness:
  "fetch_news (\<lambda>v. []) (\<lambda>url. Inl (Raised ''Connection timed out'')) ''AAPL'' (Some ''k'') 5 =
     news_unavailable aapl_url (Raised ''Connection timed out'')
   \<and> fetch_news (\<lambda>v. []) (answering 200 (Inl (Raised ''Expecting value''))) ''AAPL'' (Some ''k'') 5 =
     news_unavailable aapl_url (Raised ''Expecting value'')
   \<and> fetch_news (\<lambda>v. [])
       (answering 200 (Inr (articles_body [article ''T1'' ''S1'', JObj [(''title'', JStr ''T2'')]])))
       ''AAPL'' (Some ''k'') 5 =
     news_unavailable aapl_url (KeyError ''source'')
   \<and> (\<exists>e. fetch_news (\<lambda>v. [])
       (answering 200 (Inr (articles_body [article ''T1'' ''S1'', JStr ''T2''])))
       ''AAPL'' (Some ''k'') 5 = news_unavailable aapl_url e)"
proof -
  have k: "''k'' \<noteq> []" by simp
  let ?bad = "[article ''T1'' ''S1'', JObj [(''title'', JStr ''T2'')]]"
  let ?bad' = "[article ''T1'' ''S1'', JStr ''T2'']"
  have x: "extract_news (\<lambda>v. []) \<lparr>status_code = 200, json = Inr (articles_body ?bad)\<rparr> =
      Inl (KeyError ''source'')"
    by (simp add: extract_news_sample headline_def article_def dict_lookup_def)
  have m: "\<not> list_all well_formed_article ?bad'"
    by (simp add: not_well_formed_JStr)
  show ?thesis
    using
      fetch_news_catches [OF k, where requests_get = "\<lambda>url. Inl (Raised ''Connection timed out'')"
        and ticker = "''AAPL''" and limit = 5 and e = "Raised ''Connection timed out''"
        and repr = "\<lambda>v. []"]
      fetch_news_catches [OF k, where requests_get = "answering 200 (Inl (Raised ''Expecting value''))"
        and ticker = "''AAPL''" and limit = 5 and e = "Raised ''Expecting value''"
        and r = "\<lparr>status_code = 200, json = Inl (Raised ''Expecting value'')\<rparr>"
        and repr = "\<lambda>v. []"]
      fetch_news_catches [OF k, where requests_get = "answering 200 (Inr (articles_body ?bad))"
        and ticker = "''AAPL''" and limit = 5 and e = "KeyError ''source''"
        and r = "\<lparr>status_code = 200, json = Inr (articles_body ?bad)\<rparr>"
        and repr = "\<lambda>v. []"]
      fetch_news_catches [OF k, where requests_get = "answering 200 (Inr (articles_body ?bad'))"
        and ticker = "''AAPL''" and limit = 5
        and r = "\<lparr>status_code = 200, json = Inr (articles_body ?bad')\<rparr>"
        and kvs = "[(''status'', JStr ''ok''), (''totalResults'', JInt (int (length ?bad'))),
           (''articles'', JArr ?bad')]"
        and arts = ?bad'
        and repr = "\<lambda>v. []"]
      x m articles_body_lookup [of ?bad']
    by (simp add: news_url_aapl answering_def articles_body_def)
qed

text \<open>
  Claim C5, amended. With a credential present, whenever the news provider answers with
  a status other than 200 (so in particular with any status outside 200..299),
  \<open>fetch_news\<close> shows a warning with the status and returns the empty list; whenever it
  answers with status 200, \<open>fetch_news\<close> goes on to extract the articles. The test in
  the source is \<^verbatim>\<open>response.status_code != 200\<close>.
\<close>

theorem fetch_news_status:
  assumes "key \<noteq> []" and "requests_get (news_url ticker key limit) = Inr r"
  shows "(status_code r \<noteq> 200 \<longrightarrow>
            fetch_news repr requests_get ticker (Some key) limit =
              \<lparr>requested = [news_url ticker key limit],
               shown = [st_warning (''NewsAPI returned status '' @ str_int (status_code r))],
               returned = []\<rparr>)
    \<and> (status_code r = 200 \<longrightarrow>
            fetch_news repr requests_get ticker (Some key) limit =
              (case extract_news repr r of
                 Inr news_list \<Rightarrow>
                   \<lparr>requested = [news_url ticker key limit], shown = [], returned = news_list\<rparr>
               | Inl e \<Rightarrow> news_unavailable (news_url ticker key limit) e))"
  using assms by (simp add: fetch_news_with_key fetch_news_try_def split: sum.splits)

text \<open>
  The claim as first stated fails for status 201, which is a 2xx status: the response
  carries one well-formed article, the extraction would return its headline, and
  \<open>fetch_news\<close> warns and returns the empty list.
\<close>

theorem fetch_news_created_counterexample:
  "fetch_news (\<lambda>v. []) (answering 201 (Inr (articles_body [article ''T1'' ''S1'']))) ''AAPL''
       (Some ''k'') 5 =
     \<lparr>requested = [aapl_url], shown = [st_warning ''NewsAPI returned status 201''], returned = []\<rparr>
   \<and> extract_news (\<lambda>v. []) \<lparr>status_code = 201, json = Inr (articles_body [article ''T1'' ''S1''])\<rparr> =
     Inr [''T1 (S1)'']"
  by (simp add: fetch_news_def fetch_news_try_def news_url_aapl answering_def extract_news_sample
      headline_well_formed well_formed_article_sample headline_text_sample
      str_int_def str_nat.simps digit_char_def)

text \<open>The fourth scenario of the specification (status 429), and a status 200.\<close>

theorem fetch_news_status_witness:
  "fetch_news (\<lambda>v. []) (answering 429 (Inr (JObj [(''status'', JStr ''error'')]))) ''AAPL''
       (Some ''k'') 5 =
     \<lparr>requested = [aapl_url], shown = [st_warning ''NewsAPI returned status 429''], returned = []\<rparr>
   \<and> fetch_news (\<lambda>v. []) (answering 200 (Inr (articles_body [article ''T1'' ''S1'']))) ''AAPL''
       (Some ''k'') 5 =
     \<lparr>requested = [aapl_url], shown = [], returned = [''T1 (S1)'']\<rparr>"
proof -
  have k: "''k'' \<noteq> []" by simp
  have a: "answering 429 (Inr (JObj [(''status'', JStr ''error'')])) (news_url ''AAPL'' ''k'' 5) =
      Inr \<lparr>status_code = 429, json = Inr (JObj [(''status'', JStr ''error'')])\<rparr>"
    by (simp add: answering_def)
  have b: "answering 200 (Inr (articles_body [article ''T1'' ''S1''])) (news_url ''AAPL'' ''k'' 5) =
      Inr \<lparr>status_code = 200, json = Inr (articles_body [article ''T1'' ''S1''])\<rparr>"
    by (simp add: answering_def)
  have s: "str_int 429 = ''429''"
    by (simp add: str_int_def str_nat.simps digit_char_def)
  show ?thesis
    using
      fetch_news_status [where key = "''k''" and ticker = "''AAPL''" and limit = 5
        and requests_get = "answering 429 (Inr (JObj [(''status'', JStr ''error'')]))"
        and r = "\<lparr>status_code = 429, json = Inr (JObj [(''status'', JStr ''error'')])\<rparr>"
        and repr = "\<lambda>v. []", OF k a]
      fetch_news_status [where key = "''k''" and ticker = "''AAPL''" and limit = 5
        and requests_get = "answering 200 (Inr (articles_body [article ''T1'' ''S1'']))"
        and r = "\<lparr>status_code = 200, json = Inr (articles_body [article ''T1'' ''S1''])\<rparr>"
        and repr = "\<lambda>v. []", OF k b]
      s
    by (simp add: news_url_aapl extract_news_sample headline_well_formed
        well_formed_article_sample headline_text_sample)
qed

text \<open>
  Claim C6. With the credential absent, \<open>fetch_news\<close> returns the empty list and makes
  no request (and shows nothing), whatever the ticker, the limit and the client.
\<close>

theorem fetch_news_absent_credential:
  "fetch_news repr requests_get ticker None limit = \<lparr>requested = [], shown = [], returned = []\<rparr>"
  by (simp add: fetch_news_def)

text \<open>The third scenario of the specification.\<close>

theorem fetch_news_absent_credential_witness:
  "fetch_news (\<lambda>v. []) (answering 200 (Inr (articles_body [article ''T1'' ''S1''])))
     ''AAPL'' None 5 = \<lparr>requested = [], shown = [], returned = []\<rparr>"
  by (rule fetch_news_absent_credential)

text \<open>
  Claim C7, amended. With a credential present, for every response with status 200
  whose body is a dict with a list of well-formed articles under \<open>articles\<close>,
  \<open>fetch_news\<close> returns one string per article, in the order of the list, nothing
  dropped, merged or moved; the string of an article with title \<open>t\<close> and source name
  \<open>n\<close> is \<open>t (n)\<close>.
\<close>

theorem fetch_news_headlines:
  assumes "key \<noteq> []"
    and "requests_get (news_url ticker key limit) = Inr r"
    and "status_code r = 200"
    and "json r = Inr (JObj kvs)"
    and "dict_lookup kvs ''articles'' = Some (JArr arts)"
    and "list_all well_formed_article arts"
  shows "fetch_news repr requests_get ticker (Some key) limit =
           \<lparr>requested = [news_url ticker key limit], shown = [],
            returned = map (headline_text repr) arts\<rparr>
    \<and> (\<forall>art title name.
          article_title art = Some (JStr title) \<and> article_source_name art = Some (JStr name) \<longrightarrow>
          headline_text repr art = title @ '' ('' @ name @ '')'')"
proof -
  from assms(4,5) have "extract_news repr r = news_list_of repr arts"
    by (rule extract_news_articles)
  with assms(6) have "extract_news repr r = Inr (map (headline_text repr) arts)"
    by (simp add: news_list_of_well_formed)
  with assms(1,2,3) have "fetch_news repr requests_get ticker (Some key) limit =
      \<lparr>requested = [news_url ticker key limit], shown = [],
       returned = map (headline_text repr) arts\<rparr>"
    by (simp add: fetch_news_with_key fetch_news_try_def)
  then show ?thesis by (simp add: headline_text_def)
qed

text \<open>
  The claim as first stated speaks of every 2xx response. For status 203 with three
  well-formed articles \<open>fetch_news\<close> returns the empty list.
\<close>

theorem fetch_news_headlines_counterexample:
  "list_all well_formed_article [article ''T1'' ''S1'', article ''T2'' ''S2'', article ''T3'' ''S3'']
   \<and> fetch_news (\<lambda>v. [])
       (answering 203 (Inr (articles_body
          [article ''T1'' ''S1'', article ''T2'' ''S2'', article ''T3'' ''S3''])))
       ''AAPL'' (Some ''k'') 5 =
     \<lparr>requested = [aapl_url], shown = [st_warning ''NewsAPI returned status 203''], returned = []\<rparr>"
  by (simp add: fetch_news_def fetch_news_try_def news_url_aapl answering_def
      well_formed_article_sample str_int_def str_nat.simps digit_char_def)

text \<open>The fifth scenario of the specification.\<close>

theorem fetch_news_headlines_witness:
  "fetch_news (\<lambda>v. [])
       (answering 200 (Inr (articles_body
          [article ''T1'' ''S1'', article ''T2'' ''S2'', article ''T3'' ''S3''])))
       ''AAPL'' (Some ''k'') 5 =
     \<lparr>requested = [aapl_url], shown = [], returned = [''T1 (S1)'', ''T2 (S2)'', ''T3 (S3)'']\<rparr>"
proof -
  let ?arts = "[article ''T1'' ''S1'', article ''T2'' ''S2'', article ''T3'' ''S3'']"
  let ?r = "\<lparr>status_code = 200, json = Inr (articles_body ?arts)\<rparr>"
  have k: "''k'' \<noteq> []" by simp
  have g: "answering 200 (Inr (articles_body ?arts)) (news_url ''AAPL'' ''k'' 5) = Inr ?r"
    by (simp add: answering_def)
  have s: "status_code ?r = 200" by simp
  have j: "json ?r = Inr (JObj [(''status'', JStr ''ok''),
      (''totalResults'', JInt (int (length ?arts))), (''articles'', JArr ?arts)])"
    by (simp add: articles_body_def)
  have w: "list_all well_formed_article ?arts"
    by (simp add: well_formed_article_sample)
  from fetch_news_headlines [where key = "''k''" and ticker = "''AAPL''" and limit = 5
      and requests_get = "answering 200 (Inr (articles_body ?arts))" and r = ?r
      and arts = ?arts and repr = "\<lambda>v. []", OF k g s j articles_body_lookup w]
  show ?thesis by (simp add: news_url_aapl headline_text_sample)
qed




text \<open>
  Claim C9. Whenever the body of the response decodes to a value that has not the expected
  top-level shape (not a dict, no \<open>articles\<close> member, or an \<open>articles\<close> member that is
  not a list of well-formed articles), \<open>fetch_news\<close> returns the empty list. This holds
  for every status, so for every 2xx status.
\<close>

theorem fetch_news_unexpected_shape:
  assumes "requests_get (news_url ticker key limit) = Inr r"
    and "json r = Inr body"
    and "\<not> expected_shape body"
  shows "returned (fetch_news repr requests_get ticker (Some key) limit) = []"
proof (rule ccontr)
  assume "returned (fetch_news repr requests_get ticker (Some key) limit) \<noteq> []"
  from fetch_news_nonempty [OF this] assms(1,2) obtain kvs arts where
    "body = JObj kvs" "dict_lookup kvs ''articles'' = Some (JArr arts)"
    "list_all well_formed_article arts"
    by auto
  then have "expected_shape body" by simp
  with assms(3) show False ..
qed

text \<open>
  A dict without \<open>articles\<close>, \<open>articles\<close> being \<^verbatim>\<open>null\<close>, a top-level list, and
  \<open>articles\<close> being a string.
\<close>

theorem fetch_news_unexpected_shape_witness:
  "returned (fetch_news (\<lambda>v. []) (answering 200 (Inr (JObj [(''status'', JStr ''ok'')])))
       ''AAPL'' (Some ''k'') 5) = []
   \<and> returned (fetch_news (\<lambda>v. []) (answering 200 (Inr (JObj [(''articles'', JNull)])))
       ''AAPL'' (Some ''k'') 5) = []
   \<and> returned (fetch_news (\<lambda>v. []) (answering 200 (Inr (JArr [article ''T1'' ''S1''])))
       ''AAPL'' (Some ''k'') 5) = []
   \<and> returned (fetch_news (\<lambda>v. []) (answering 200 (Inr (JObj [(''articles'', JStr ''none'')])))
       ''AAPL'' (Some ''k'') 5) = []"
proof -
  have a: "answering 200 (Inr body) (news_url ''AAPL'' ''k'' 5) =
      Inr \<lparr>status_code = 200, json = Inr body\<rparr>" for body
    by (simp add: answering_def)
  have j: "json \<lparr>status_code = 200, json = Inr body\<rparr> = Inr body" for body :: json
    by simp
  have 1: "\<not> expected_shape (JObj [(''status'', JStr ''ok'')])"
    by (simp add: dict_lookup_def)
  have 2: "\<not> expected_shape (JObj [(''articles'', JNull)])"
    by (simp add: dict_lookup_def)
  have 3: "\<not> expected_shape (JArr [article ''T1'' ''S1''])"
    by simp
  have 4: "\<not> expected_shape (JObj [(''articles'', JStr ''none'')])"
    by (simp add: dict_lookup_def)
  from fetch_news_unexpected_shape [where requests_get = "answering 200 (Inr (JObj [(''status'', JStr ''ok'')]))"
      and ticker = "''AAPL''" and key = "''k''" and limit = 5 and repr = "\<lambda>v. []", OF a j 1]
    fetch_news_unexpected_shape [where requests_get = "answering 200 (Inr (JObj [(''articles'', JNull)]))"
      and ticker = "''AAPL''" and key = "''k''" and limit = 5 and repr = "\<lambda>v. []", OF a j 2]
    fetch_news_unexpected_shape [where requests_get = "answering 200 (Inr (JArr [article ''T1'' ''S1'']))"
      and ticker = "''AAPL''" and key = "''k''" and limit = 5 and repr = "\<lambda>v. []", OF a j 3]
    fetch_news_unexpected_shape [where requests_get = "answering 200 (Inr (JObj [(''articles'', JStr ''none'')]))"
      and ticker = "''AAPL''" and key = "''k''" and limit = 5 and repr = "\<lambda>v. []", OF a j 4]
  show ?thesis by simp
qed

text \<open>
  Claim C10. With the empty string as credential \<open>fetch_news\<close> does exactly what it does
  with the credential absent: it returns the empty list and makes no request.
\<close>

theorem fetch_news_empty_credential:
  "fetch_news repr requests_get ticker (Some '''') limit = fetch_news repr requests_get ticker None limit
   \<and> fetch_news repr requests_get ticker (Some '''') limit = \<lparr>requested = [], shown = [], returned = []\<rparr>"
  by (simp add: fetch_news_def)

text \<open>The same call with the empty credential and with none.\<close>

theorem fetch_news_empty_credential_witness:
  "fetch_news (\<lambda>v. []) (answering 200 (Inr (articles_body [article ''T1'' ''S1''])))
     ''AAPL'' (Some '''') 5 =
   fetch_news (\<lambda>v. []) (answering 200 (Inr (articles_body [article ''T1'' ''S1''])))
     ''AAPL'' None 5
   \<and> fetch_news (\<lambda>v. []) (answering 200 (Inr (articles_body [article ''T1'' ''S1''])))
     ''AAPL'' (Some '''') 5 = \<lparr>requested = [], shown = [], returned = []\<rparr>"
  by (rule fetch_news_empty_credential)

end
